theory Spec2Isabelle
  imports Main
begin

section \<open>Go values shared by the package\<close>

text \<open>
  A Go \<open>[]byte\<close> and a Go \<open>string\<close> are both sequences of bytes; an Isabelle
  \<open>char\<close> is one byte.
\<close>

type_synonym bytes = string

text \<open>
  A Go \<open>error\<close> is a value with a message. \<open>errors.New\<close> and \<open>fmt.Errorf\<close> (with
  no \<open>%w\<close>) both build an \<open>errorString\<close>; an error that comes out of the standard
  library (from reading a body, from the JSON codec, from the URL parser) has a dynamic
  type of its own and is never equal to one of the package's.
\<close>

datatype error = errorString string | libraryError string


text \<open>
  A call either returns or panics. The package recovers from no panic, so a panic is
  an outcome of its own: a nil dereference, or the \<open>ValueError\<close> of package reflect.
\<close>

datatype Kind =
  Invalid | Bool | Int | Int8 | Int16 | Int32 | Int64
  | Uint | Uint8 | Uint16 | Uint32 | Uint64 | Uintptr
  | Float32 | Float64 | Complex64 | Complex128
  | Array | Chan | Func | Interface | Map | Pointer | Slice | String | Struct
  | UnsafePointer

datatype panic = nilDereference | ValueError string Kind

datatype 'a outcome = Panic panic | Return 'a

subsection \<open>fmt: the verb \<open>%d\<close>\<close>

definition digit :: "nat \<Rightarrow> char" where
  "digit d = ''0123456789'' ! (d mod 10)"

fun decimal :: "nat \<Rightarrow> string" where
  "decimal n = (if n < 10 then [digit n] else decimal (n div 10) @ [digit (n mod 10)])"

definition fmt_d :: "int \<Rightarrow> string" where
  "fmt_d i = (if i < 0 then CHR ''-'' # decimal (nat (- i)) else decimal (nat i))"

subsection \<open>strings: \<open>HasPrefix\<close> and \<open>HasSuffix\<close>\<close>

definition HasPrefix :: "string \<Rightarrow> string \<Rightarrow> bool" where
  "HasPrefix s prefix = (length s \<ge> length prefix \<and> take (length prefix) s = prefix)"

definition HasSuffix :: "string \<Rightarrow> string \<Rightarrow> bool" where
  "HasSuffix s suffix =
     (length s \<ge> length suffix \<and> drop (length s - length suffix) s = suffix)"

subsection \<open>io: readers\<close>

text \<open>
  An \<open>io.Reader\<close> is known to this package only through \<open>ioutil.ReadAll\<close>, which
  reads until the stream ends and returns the bytes read so far together with the
  error that ended it (\<open>nil\<close> when the end was \<open>io.EOF\<close>). A reader is therefore the
  bytes it delivers and the way it ends.
\<close>

datatype Reader = Reader (content: bytes) (failure: "error option")

definition ReadAll :: "Reader \<Rightarrow> bytes \<times> error option" where
  "ReadAll r = (content r, failure r)"

definition bytes_NewReader :: "bytes \<Rightarrow> Reader" where
  "bytes_NewReader b = Reader b None"

subsection \<open>reflect: interface values and \<open>IsNil\<close>\<close>

text \<open>
  An \<open>interface{}\<close> is either nil or holds a dynamic value: its kind and, for the
  kinds that have a nil (pointers, maps, slices, channels, functions), whether it is
  that nil (\<open>target = None\<close>) or refers to something. \<open>reflect.ValueOf\<close> of a non-nil
  interface is that dynamic value; \<open>IsNil\<close> panics on every kind that has no nil.
\<close>

datatype 'v Value = Value (kind: Kind) (target: "'v option")

type_synonym 'v interface = "'v Value option"

definition IsNil :: "'v Value \<Rightarrow> bool outcome" where
  "IsNil v =
     (if kind v \<in> {Chan, Func, Map, Pointer, UnsafePointer, Interface, Slice}
      then Return (case target v of None \<Rightarrow> True | Some _ \<Rightarrow> False)
      else Panic (ValueError ''reflect.Value.IsNil'' (kind v)))"

section \<open>net/url\<close>

text \<open>
  Modelled from the spec: package net/url is not among the sources. The spec asks for
  "standard relative-URL-reference rules", which is RFC 3986: a URL is its five
  components (section 3), of which the scheme, the authority, the query and the
  fragment may be undefined, and \<open>String\<close> is the recomposition of section 5.3.
\<close>

record URL =
  Scheme :: "string option"
  Authority :: "string option"
  Path :: string
  RawQuery :: "string option"
  Fragment :: "string option"

definition url_String :: "URL \<Rightarrow> string" where
  "url_String u =
     (case Scheme u of None \<Rightarrow> [] | Some s \<Rightarrow> s @ '':'')
     @ (case Authority u of None \<Rightarrow> [] | Some a \<Rightarrow> ''//'' @ a)
     @ Path u
     @ (case RawQuery u of None \<Rightarrow> [] | Some q \<Rightarrow> CHR ''?'' # q)
     @ (case Fragment u of None \<Rightarrow> [] | Some f \<Rightarrow> CHR ''#'' # f)"

text \<open>
  Modelled from the spec: \<open>url.Parse\<close>. A reference is split into its components as
  the regular expression of RFC 3986, appendix B, splits it: the scheme is what stands
  before the first of \<open>: / ? #\<close> when that is a colon and something stands before it,
  the authority follows \<open>//\<close>, the path runs to the first \<open>?\<close> or \<open>#\<close>, the query to
  the first \<open>#\<close>. Which strings the parser refuses, and with which message, is fixed
  neither by the sources nor by the spec ("malformed"): it is the parameter \<open>rejects\<close>.
\<close>

definition delimiter :: "string \<Rightarrow> char \<Rightarrow> bool" where
  "delimiter ds ch = (ch \<in> set ds)"

definition url_split :: "string \<Rightarrow> URL" where
  "url_split s =
     (let a = takeWhile (\<lambda>ch. \<not> delimiter '':/?#'' ch) s;
          r = dropWhile (\<lambda>ch. \<not> delimiter '':/?#'' ch) s;
          hasScheme = (a \<noteq> [] \<and> HasPrefix r '':'');
          s1 = (if hasScheme then drop 1 r else s);
          hasAuthority = HasPrefix s1 ''//'';
          s2 = (if hasAuthority then dropWhile (\<lambda>ch. \<not> delimiter ''/?#'' ch) (drop 2 s1) else s1);
          s3 = dropWhile (\<lambda>ch. \<not> delimiter ''?#'' ch) s2;
          hasQuery = HasPrefix s3 ''?'';
          s4 = (if hasQuery then dropWhile (\<lambda>ch. \<not> delimiter ''#'' ch) (drop 1 s3) else s3)
      in \<lparr>Scheme = (if hasScheme then Some a else None),
          Authority =
            (if hasAuthority
             then Some (takeWhile (\<lambda>ch. \<not> delimiter ''/?#'' ch) (drop 2 s1)) else None),
          Path = takeWhile (\<lambda>ch. \<not> delimiter ''?#'' ch) s2,
          RawQuery =
            (if hasQuery
             then Some (takeWhile (\<lambda>ch. \<not> delimiter ''#'' ch) (drop 1 s3)) else None),
          Fragment = (if HasPrefix s4 ''#'' then Some (drop 1 s4) else None)\<rparr>)"

definition url_Parse :: "(string \<Rightarrow> string option) \<Rightarrow> string \<Rightarrow> error + URL" where
  "url_Parse rejects rawURL =
     (case rejects rawURL of
        Some msg \<Rightarrow> Inl (libraryError msg)
      | None \<Rightarrow> Inr (url_split rawURL))"

text \<open>
  Modelled from the spec: \<open>ResolveReference\<close>, as RFC 3986 section 5.2 gives it.
  Section 5.2.4, removing the dot segments: the input buffer is consumed from the
  left, the output buffer grows at the right.
\<close>

definition first_segment :: "string \<Rightarrow> string" where
  "first_segment input =
     (if HasPrefix input ''/''
      then CHR ''/'' # takeWhile (\<lambda>ch. ch \<noteq> CHR ''/'') (drop 1 input)
      else takeWhile (\<lambda>ch. ch \<noteq> CHR ''/'') input)"

definition remove_last_segment :: "string \<Rightarrow> string" where
  "remove_last_segment output = rev (drop 1 (dropWhile (\<lambda>ch. ch \<noteq> CHR ''/'') (rev output)))"

function remove_dot_segments_loop :: "string \<Rightarrow> string \<Rightarrow> string" where
  "remove_dot_segments_loop input output =
     (if input = [] then output
      else if HasPrefix input ''../'' then remove_dot_segments_loop (drop 3 input) output
      else if HasPrefix input ''./'' then remove_dot_segments_loop (drop 2 input) output
      else if HasPrefix input ''/./'' then remove_dot_segments_loop (drop 2 input) output
      else if input = ''/.'' then remove_dot_segments_loop ''/'' output
      else if HasPrefix input ''/../''
        then remove_dot_segments_loop (drop 3 input) (remove_last_segment output)
      else if input = ''/..'' then remove_dot_segments_loop ''/'' (remove_last_segment output)
      else if input = ''.'' \<or> input = ''..'' then remove_dot_segments_loop [] output
      else remove_dot_segments_loop (drop (length (first_segment input)) input)
             (output @ first_segment input))"
  by pat_completeness auto
termination
proof (relation "measure (\<lambda>(input, output). length input)")
  fix inp outp :: string
  assume "inp \<noteq> []"
  then show "((drop (length (first_segment inp)) inp, outp @ first_segment inp), inp, outp)
      \<in> measure (\<lambda>(input, output). length input)"
    by (cases inp) (auto simp: first_segment_def HasPrefix_def)
qed (auto simp: HasPrefix_def)

definition remove_dot_segments :: "string \<Rightarrow> string" where
  "remove_dot_segments path = remove_dot_segments_loop path []"

text \<open>Section 5.2.3, merging a relative path with the path of the base.\<close>

definition merge :: "URL \<Rightarrow> string \<Rightarrow> string" where
  "merge base path =
     (if Authority base \<noteq> None \<and> Path base = [] then CHR ''/'' # path
      else rev (dropWhile (\<lambda>ch. ch \<noteq> CHR ''/'') (rev (Path base))) @ path)"

text \<open>Section 5.2.2, transforming the reference \<open>ref\<close> against the base \<open>u\<close>.\<close>

definition ResolveReference :: "URL \<Rightarrow> URL \<Rightarrow> URL" where
  "ResolveReference u ref =
     (if Scheme ref \<noteq> None
      then \<lparr>Scheme = Scheme ref, Authority = Authority ref,
            Path = remove_dot_segments (Path ref), RawQuery = RawQuery ref,
            Fragment = Fragment ref\<rparr>
      else if Authority ref \<noteq> None
      then \<lparr>Scheme = Scheme u, Authority = Authority ref,
            Path = remove_dot_segments (Path ref), RawQuery = RawQuery ref,
            Fragment = Fragment ref\<rparr>
      else if Path ref = []
      then \<lparr>Scheme = Scheme u, Authority = Authority u, Path = Path u,
            RawQuery = (if RawQuery ref \<noteq> None then RawQuery ref else RawQuery u),
            Fragment = Fragment ref\<rparr>
      else if HasPrefix (Path ref) ''/''
      then \<lparr>Scheme = Scheme u, Authority = Authority u,
            Path = remove_dot_segments (Path ref), RawQuery = RawQuery ref,
            Fragment = Fragment ref\<rparr>
      else \<lparr>Scheme = Scheme u, Authority = Authority u,
            Path = remove_dot_segments (merge u (Path ref)), RawQuery = RawQuery ref,
            Fragment = Fragment ref\<rparr>)"

section \<open>net/http: requests and responses\<close>

text \<open>
  The fields of \<open>http.Request\<close> and \<open>http.Response\<close> that the package reads. \<open>Request\<close>,
  \<open>URL\<close> and \<open>Body\<close> are pointers or interfaces in Go and may be nil. \<open>StatusCode\<close> is
  a Go \<open>int\<close>; the package only compares it and prints it, so no arithmetic can
  overflow and the model takes every integer.
\<close>

record Request =
  Method :: string
  URL :: "URL option"

record Response =
  StatusCode :: int
  Request :: "Request option"
  Body :: "Reader option"


section \<open>Package agile\<close>

subsection \<open>Types\<close>

text \<open>The result envelope declared in the package (lines 197 to 203).\<close>

record ResponseScheme =
  Code :: int
  Endpoint :: string
  Method :: string
  Bytes :: bytes
  Headers :: "(string \<times> string list) list option"

text \<open>
  Modelled from the spec: \<open>models.ResponseScheme\<close>, the envelope of the method-bound
  transformer, is declared in package \<open>pkg/infra/models\<close>, which is not among the sources.
  The spec's data model gives it the same five fields.
\<close>

record models_ResponseScheme =
  Code :: int
  Endpoint :: string
  Method :: string
  Bytes :: bytes
  Headers :: "(string \<times> string list) list option"

text \<open>\<open>&ResponseScheme{}\<close>: every field has its zero value.\<close>

definition ResponseScheme_zero :: ResponseScheme where
  "ResponseScheme_zero =
     \<lparr>ResponseScheme.Code = 0, Endpoint = [], Method = [], Bytes = [], Headers = None\<rparr>"

definition models_ResponseScheme_zero :: models_ResponseScheme where
  "models_ResponseScheme_zero =
     \<lparr>models_ResponseScheme.Code = 0, Endpoint = [], Method = [], Bytes = [], Headers = None\<rparr>"

text \<open>
  \<open>bytes.Buffer.Write\<close> appends to the buffer.
\<close>

definition Buffer_Write :: "bytes \<Rightarrow> bytes \<Rightarrow> bytes" where
  "Buffer_Write buf p = buf @ p"

text \<open>
  The client (lines 19 to 28). \<open>*http.Client\<close> is known by its identity only; the
  service structs are declared in files that are not among the sources, so they hold
  what \<open>New\<close> and \<open>newRequest\<close> name: \<open>SprintService{client}\<close>, \<open>BoardService{c, version}\<close>,
  \<open>EpicService{c, version}\<close> by position and \<open>AuthenticationService\<close> by field. A
  \<open>*Client\<close> inside a service is an address or nil. The two handler interfaces
  \<open>agile.Board\<close> and \<open>agile.Epic\<close> are type parameters.
\<close>

datatype http_Client = http_DefaultClient | http_Client nat

type_synonym Client_ref = nat

record AuthenticationService =
  client :: "Client_ref option"
  basicAuthProvided :: bool
  mail :: string
  token :: string
  userAgentProvided :: bool
  agent :: string

datatype SprintService = SprintService "Client_ref option"

datatype BoardService = BoardService "Client_ref option" string

datatype EpicService = EpicService "Client_ref option" string

record ('b, 'e) Client =
  HTTP :: "http_Client option"
  Site :: "URL option"
  Auth :: "AuthenticationService option"
  Sprint :: "SprintService option"
  Board :: "BoardService option"
  Epic :: "EpicService option"
  BoardV2 :: 'b
  EpicV2 :: 'e

subsection \<open>Error values (lines 205 to 210)\<close>



definition requestFailedError :: "int \<Rightarrow> error" where
  "requestFailedError d =
     errorString (''request failed. Please analyze the request body for more details. Status Code: ''
       @ fmt_d d)"

definition structureNotParsedError :: error where
  "structureNotParsedError =
     errorString ''failed to parse the interface pointer, please provide a valid one''"

subsection \<open>The constructor (lines 30 to 65)\<close>

text \<open>
  \<open>newBoardService\<close> and \<open>newEpicService\<close> are declared in files that are not among
  the sources; they are parameters. The named result \<open>client\<close> is still nil where the
  services are built, so every service holds a nil \<open>*Client\<close>. A bare \<open>return\<close> after
  a failed parse returns that nil and the parser's error.
\<close>

definition New ::
  "(string \<Rightarrow> string option) \<Rightarrow> (Client_ref option \<Rightarrow> string \<Rightarrow> error + 'b)
     \<Rightarrow> (Client_ref option \<Rightarrow> string \<Rightarrow> error + 'e) \<Rightarrow> http_Client option \<Rightarrow> string
     \<Rightarrow> ('b, 'e) Client option \<times> error option" where
  "New rejects newBoardService newEpicService httpClient site =
     (let httpClient' = (if httpClient = None then Some http_DefaultClient else httpClient);
          site' = (if \<not> HasSuffix site ''/'' then site @ ''/'' else site)
      in (case url_Parse rejects site' of
           Inl err \<Rightarrow> (None, Some err)
         | Inr siteAsURL \<Rightarrow>
            (case newBoardService None ''1.0'' of
               Inl err \<Rightarrow> (None, Some err)
             | Inr boardHandler \<Rightarrow>
                (case newEpicService None ''1.0'' of
                   Inl err \<Rightarrow> (None, Some err)
                 | Inr epicHandler \<Rightarrow>
                    (Some \<lparr>HTTP = httpClient',
                       Site = Some siteAsURL,
                       Auth = Some \<lparr>client = None, basicAuthProvided = False, mail = [],
                                token = [], userAgentProvided = False, agent = []\<rparr>,
                       Sprint = Some (SprintService None),
                       Board = Some (BoardService None ''1.0''),
                       Epic = Some (EpicService None ''1.0''),
                       BoardV2 = boardHandler,
                       EpicV2 = epicHandler\<rparr>,
                     None)))))"

subsection \<open>The request builder (lines 67 to 90)\<close>


subsection \<open>The response transformer\<close>

text \<open>
  \<open>json.Unmarshal(data, &structure)\<close> is a parameter: given the bytes and the
  destination it returns its error and the destination as the call leaves it.
  The transformer returns the envelope, the error and the destination; a nil
  \<open>Request\<close>, \<open>URL\<close> or \<open>Body\<close> is dereferenced without a check and panics.

  The method of the client (lines 103 to 134); the receiver is not used.
\<close>

definition Client_transformTheHTTPResponse ::
  "('b, 'e) Client option \<Rightarrow> (bytes \<Rightarrow> 'v Value \<Rightarrow> error option \<times> 'v Value)
     \<Rightarrow> Response option \<Rightarrow> 'v interface
     \<Rightarrow> (models_ResponseScheme option \<times> error option \<times> 'v interface) outcome" where
  "Client_transformTheHTTPResponse c Unmarshal response structure =
     (case response of
        None \<Rightarrow>
          Return (None,
            Some (errorString ''validation failed, please provide a http.Response pointer''),
            structure)
      | Some r \<Rightarrow>
         (case Request r of
            None \<Rightarrow> Panic nilDereference
          | Some rq \<Rightarrow>
             (case URL rq of
                None \<Rightarrow> Panic nilDereference
              | Some u \<Rightarrow>
                 let responseTransformed = models_ResponseScheme_zero
                       \<lparr>models_ResponseScheme.Code := StatusCode r,
                        models_ResponseScheme.Endpoint := url_String u,
                        models_ResponseScheme.Method := Request.Method rq\<rparr>;
                     wasSuccess = (StatusCode r \<ge> 200 \<and> StatusCode r < 300)
                 in if \<not> wasSuccess
                    then Return (Some responseTransformed,
                           Some (requestFailedError (StatusCode r)), structure)
                    else
                     (case Body r of
                        None \<Rightarrow> Panic nilDereference
                      | Some body \<Rightarrow>
                         (case ReadAll body of
                            (responseAsBytes, Some err) \<Rightarrow>
                              Return (Some responseTransformed, Some err, structure)
                          | (responseAsBytes, None) \<Rightarrow>
                             (case (case structure of
                                      None \<Rightarrow> (None, None)
                                    | Some dst \<Rightarrow>
                                        (case Unmarshal responseAsBytes dst of
                                           (err, dst') \<Rightarrow> (err, Some dst'))) of
                                (Some err, structure') \<Rightarrow>
                                  Return (Some responseTransformed, Some err, structure')
                              | (None, structure') \<Rightarrow>
                                  Return (Some (responseTransformed
                                      \<lparr>models_ResponseScheme.Bytes :=
                                         Buffer_Write (models_ResponseScheme.Bytes responseTransformed)
                                           responseAsBytes\<rparr>),
                                    None, structure')))))))"

text \<open>The top-level function (lines 164 to 195).\<close>

definition transformTheHTTPResponse ::
  "(bytes \<Rightarrow> 'v Value \<Rightarrow> error option \<times> 'v Value) \<Rightarrow> Response option \<Rightarrow> 'v interface
     \<Rightarrow> (ResponseScheme option \<times> error option \<times> 'v interface) outcome" where
  "transformTheHTTPResponse Unmarshal response structure =
     (case response of
        None \<Rightarrow>
          Return (None,
            Some (errorString ''validation failed, please provide a http.Response pointer''),
            structure)
      | Some r \<Rightarrow>
         (case Request r of
            None \<Rightarrow> Panic nilDereference
          | Some rq \<Rightarrow>
             (case URL rq of
                None \<Rightarrow> Panic nilDereference
              | Some u \<Rightarrow>
                 let responseTransformed = ResponseScheme_zero
                       \<lparr>ResponseScheme.Code := StatusCode r,
                        ResponseScheme.Endpoint := url_String u,
                        ResponseScheme.Method := Request.Method rq\<rparr>;
                     wasSuccess = (StatusCode r \<ge> 200 \<and> StatusCode r < 300)
                 in if \<not> wasSuccess
                    then Return (Some responseTransformed,
                           Some (requestFailedError (StatusCode r)), structure)
                    else
                     (case Body r of
                        None \<Rightarrow> Panic nilDereference
                      | Some body \<Rightarrow>
                         (case ReadAll body of
                            (responseAsBytes, Some err) \<Rightarrow>
                              Return (Some responseTransformed, Some err, structure)
                          | (responseAsBytes, None) \<Rightarrow>
                             (case (case structure of
                                      None \<Rightarrow> (None, None)
                                    | Some dst \<Rightarrow>
                                        (case Unmarshal responseAsBytes dst of
                                           (err, dst') \<Rightarrow> (err, Some dst'))) of
                                (Some err, structure') \<Rightarrow>
                                  Return (Some responseTransformed, Some err, structure')
                              | (None, structure') \<Rightarrow>
                                  Return (Some (responseTransformed
                                      \<lparr>ResponseScheme.Bytes :=
                                         Buffer_Write (ResponseScheme.Bytes responseTransformed)
                                           responseAsBytes\<rparr>),
                                    None, structure')))))))"

subsection \<open>The payload serializer\<close>

text \<open>
  \<open>json.Marshal\<close> is a parameter. The test \<open>structure == nil\<close> sees only the nil
  interface; \<open>reflect.ValueOf(structure).IsNil()\<close> is evaluated for every other value
  and panics on a kind that has no nil.

  The method of the client (lines 136 to 148); the receiver is not used.
\<close>

definition Client_transformStructToReader ::
  "('b, 'e) Client option \<Rightarrow> ('v Value \<Rightarrow> error + bytes) \<Rightarrow> 'v interface
     \<Rightarrow> (Reader option \<times> error option) outcome" where
  "Client_transformStructToReader c Marshal structure =
     (case structure of
        None \<Rightarrow> Return (None, Some structureNotParsedError)
      | Some v \<Rightarrow>
         (case IsNil v of
            Panic p \<Rightarrow> Panic p
          | Return True \<Rightarrow> Return (None, Some structureNotParsedError)
          | Return False \<Rightarrow>
             (case Marshal v of
                Inl err \<Rightarrow> Return (None, Some err)
              | Inr structureAsBodyBytes \<Rightarrow>
                  Return (Some (bytes_NewReader structureAsBodyBytes), None))))"

text \<open>The top-level function (lines 150 to 162).\<close>

definition transformStructToReader ::
  "('v Value \<Rightarrow> error + bytes) \<Rightarrow> 'v interface \<Rightarrow> (Reader option \<times> error option) outcome" where
  "transformStructToReader Marshal structure =
     (case structure of
        None \<Rightarrow> Return (None, Some structureNotParsedError)
      | Some v \<Rightarrow>
         (case IsNil v of
            Panic p \<Rightarrow> Panic p
          | Return True \<Rightarrow> Return (None, Some structureNotParsedError)
          | Return False \<Rightarrow>
             (case Marshal v of
                Inl err \<Rightarrow> Return (None, Some err)
              | Inr structureAsBodyBytes \<Rightarrow>
                  Return (Some (bytes_NewReader structureAsBodyBytes), None))))"

section \<open>Properties of the library models\<close>

declare decimal.simps [simp del]

declare remove_dot_segments_loop.simps [simp del]

subsection \<open>Decimal printing is injective\<close>

lemma digit_inj: "d < 10 \<Longrightarrow> e < 10 \<Longrightarrow> digit d = digit e \<Longrightarrow> d = e"
proof -
  assume d: "d < 10" and e: "e < 10" and eq: "digit d = digit e"
  have "distinct ''0123456789''" by simp
  moreover have "d < length ''0123456789''" "e < length ''0123456789''" using d e by simp_all
  moreover have "''0123456789'' ! d = ''0123456789'' ! e" using d e eq by (simp add: digit_def)
  ultimately show ?thesis by (simp only: nth_eq_iff_index_eq)
qed

lemma digit_not_minus: "digit d \<noteq> CHR ''-''"
proof -
  have "d mod 10 < length ''0123456789''" by simp
  then have "''0123456789'' ! (d mod 10) \<in> set ''0123456789''" by (rule nth_mem)
  then have "digit d \<in> set ''0123456789''" by (simp only: digit_def)
  then show ?thesis by auto
qed

lemma decimal_nonempty: "decimal n \<noteq> []"
  by (subst decimal.simps) simp

lemma decimal_hd: "hd (decimal n) \<noteq> CHR ''-''"
proof (induction n rule: decimal.induct)
  case (1 n)
  show ?case
  proof (cases "n < 10")
    case True
    then show ?thesis by (subst decimal.simps) (simp add: digit_not_minus)
  next
    case False
    with 1 decimal_nonempty[of "n div 10"] show ?thesis by (subst decimal.simps) simp
  qed
qed

lemma decimal_inj: "decimal n = decimal m \<Longrightarrow> n = m"
proof (induction n arbitrary: m rule: decimal.induct)
  case (1 n)
  show ?case
  proof (cases "n < 10")
    case n: True
    show ?thesis
    proof (cases "m < 10")
      case True
      with n 1(2) show ?thesis
        by (simp add: decimal.simps[of n] decimal.simps[of m] digit_inj)
    next
      case False
      with n 1(2) decimal_nonempty[of "m div 10"] show ?thesis
        by (simp add: decimal.simps[of n] decimal.simps[of m])
    qed
  next
    case n: False
    show ?thesis
    proof (cases "m < 10")
      case True
      with n 1(2) decimal_nonempty[of "n div 10"] show ?thesis
        by (simp add: decimal.simps[of n] decimal.simps[of m])
    next
      case False
      with n 1(2) have a: "decimal (n div 10) = decimal (m div 10)"
        and b: "digit (n mod 10) = digit (m mod 10)"
        by (simp_all add: decimal.simps[of n] decimal.simps[of m])
      from 1(1)[OF n a] have "n div 10 = m div 10" .
      moreover from b have "n mod 10 = m mod 10" by (intro digit_inj) simp_all
      ultimately show ?thesis by (metis div_mult_mod_eq)
    qed
  qed
qed

lemma fmt_d_inj: "fmt_d i = fmt_d j \<Longrightarrow> i = j"
proof -
  assume h: "fmt_d i = fmt_d j"
  have neg: "\<And>a b. CHR ''-'' # decimal a \<noteq> decimal b"
  proof
    fix a b assume "CHR ''-'' # decimal a = decimal b"
    then have "hd (decimal b) = CHR ''-''" by (metis list.sel(1))
    with decimal_hd show False by blast
  qed
  show ?thesis
  proof (cases "i < 0")
    case i: True
    show ?thesis
    proof (cases "j < 0")
      case True
      with i h have "decimal (nat (- i)) = decimal (nat (- j))" by (simp add: fmt_d_def)
      then have "nat (- i) = nat (- j)" by (rule decimal_inj)
      with i True show ?thesis by simp
    next
      case False
      with i h neg show ?thesis by (simp add: fmt_d_def)
    qed
  next
    case i: False
    show ?thesis
    proof (cases "j < 0")
      case True
      with i h neg[of "nat (- j)" "nat i"] show ?thesis by (simp add: fmt_d_def)
    next
      case False
      with i h have "decimal (nat i) = decimal (nat j)" by (simp add: fmt_d_def)
      then have "nat i = nat j" by (rule decimal_inj)
      with i False show ?thesis by simp
    qed
  qed
qed

lemma requestFailedError_inj: "requestFailedError d = requestFailedError e \<Longrightarrow> d = e"
  by (simp add: requestFailedError_def fmt_d_inj)

subsection \<open>Recomposition undoes splitting\<close>

lemma HasPrefix_1: "HasPrefix s [ch] \<longleftrightarrow> (\<exists>t. s = ch # t)"
  by (cases s) (auto simp: HasPrefix_def)

lemma HasPrefix_2: "HasPrefix s [c1, c2] \<longleftrightarrow> (\<exists>t. s = c1 # c2 # t)"
  by (cases s; cases "tl s") (auto simp: HasPrefix_def)

lemma dropWhile_delim:
  "dropWhile (\<lambda>ch. \<not> delimiter ds ch) s = [] \<or>
   (\<exists>ch t. dropWhile (\<lambda>ch. \<not> delimiter ds ch) s = ch # t \<and> ch \<in> set ds)"
proof (cases "dropWhile (\<lambda>ch. \<not> delimiter ds ch) s")
  case Nil
  then show ?thesis by simp
next
  case (Cons ch t)
  then have "dropWhile (\<lambda>ch. \<not> delimiter ds ch) s \<noteq> []" by simp
  from hd_dropWhile[OF this] Cons show ?thesis by (simp add: delimiter_def)
qed

lemma tail_fragment:
  "d = [] \<or> (\<exists>ch t. d = ch # t \<and> ch \<in> set ''#'') \<Longrightarrow>
   (if HasPrefix d ''#'' then CHR ''#'' # drop 1 d else []) = d"
  by (auto simp: HasPrefix_1)

lemma tail_query_fragment:
  assumes "s3 = [] \<or> (\<exists>ch t. s3 = ch # t \<and> ch \<in> set ''?#'')"
    and "s4 = (if HasPrefix s3 ''?''
               then dropWhile (\<lambda>ch. \<not> delimiter ''#'' ch) (drop 1 s3) else s3)"
  shows "(if HasPrefix s3 ''?''
          then CHR ''?'' # takeWhile (\<lambda>ch. \<not> delimiter ''#'' ch) (drop 1 s3) else [])
       @ (if HasPrefix s4 ''#'' then CHR ''#'' # drop 1 s4 else []) = s3"
proof (cases "HasPrefix s3 ''?''")
  case True
  then obtain t where t: "s3 = CHR ''?'' # t" by (auto simp: HasPrefix_1)
  have "s4 = [] \<or> (\<exists>ch t'. s4 = ch # t' \<and> ch \<in> set ''#'')"
    using True assms(2) dropWhile_delim[of "''#''" "drop 1 s3"] by simp
  then have "(if HasPrefix s4 ''#'' then CHR ''#'' # drop 1 s4 else []) = s4"
    by (rule tail_fragment)
  with True t assms(2) show ?thesis by simp
next
  case False
  with assms have "s4 = [] \<or> (\<exists>ch t'. s4 = ch # t' \<and> ch \<in> set ''#'')"
    by (auto simp: HasPrefix_1)
  then have "(if HasPrefix s4 ''#'' then CHR ''#'' # drop 1 s4 else []) = s4"
    by (rule tail_fragment)
  with False assms(2) show ?thesis by simp
qed

lemma url_String_split: "url_String (url_split s) = s"
proof -
  define a where "a = takeWhile (\<lambda>ch. \<not> delimiter '':/?#'' ch) s"
  define r where "r = dropWhile (\<lambda>ch. \<not> delimiter '':/?#'' ch) s"
  define hs where "hs \<longleftrightarrow> a \<noteq> [] \<and> HasPrefix r '':''"
  define s1 where "s1 = (if hs then drop 1 r else s)"
  define ha where "ha \<longleftrightarrow> HasPrefix s1 ''//''"
  define s2 where "s2 = (if ha
    then dropWhile (\<lambda>ch. \<not> delimiter ''/?#'' ch) (drop 2 s1) else s1)"
  define s3 where "s3 = dropWhile (\<lambda>ch. \<not> delimiter ''?#'' ch) s2"
  define hq where "hq \<longleftrightarrow> HasPrefix s3 ''?''"
  define s4 where "s4 = (if hq
    then dropWhile (\<lambda>ch. \<not> delimiter ''#'' ch) (drop 1 s3) else s3)"
  have split: "url_split s =
      \<lparr>Scheme = (if hs then Some a else None),
       Authority = (if ha
         then Some (takeWhile (\<lambda>ch. \<not> delimiter ''/?#'' ch) (drop 2 s1)) else None),
       Path = takeWhile (\<lambda>ch. \<not> delimiter ''?#'' ch) s2,
       RawQuery = (if hq
         then Some (takeWhile (\<lambda>ch. \<not> delimiter ''#'' ch) (drop 1 s3)) else None),
       Fragment = (if HasPrefix s4 ''#'' then Some (drop 1 s4) else None)\<rparr>"
    unfolding url_split_def Let_def a_def r_def hs_def s1_def ha_def s2_def s3_def hq_def s4_def
    by (rule refl)
  have s: "s = a @ r" by (simp add: a_def r_def)
  have p1: "(if hs then a @ '':'' else []) @ s1 = s"
    by (auto simp: s1_def hs_def s HasPrefix_1)
  have p2: "(if ha
      then ''//'' @ takeWhile (\<lambda>ch. \<not> delimiter ''/?#'' ch) (drop 2 s1) else []) @ s2 = s1"
    by (auto simp: s2_def ha_def HasPrefix_2)
  have p3: "takeWhile (\<lambda>ch. \<not> delimiter ''?#'' ch) s2 @ s3 = s2"
    by (simp add: s3_def)
  have "s3 = [] \<or> (\<exists>ch t. s3 = ch # t \<and> ch \<in> set ''?#'')"
    unfolding s3_def by (rule dropWhile_delim)
  then have p4: "(if hq
      then CHR ''?'' # takeWhile (\<lambda>ch. \<not> delimiter ''#'' ch) (drop 1 s3) else [])
      @ (if HasPrefix s4 ''#'' then CHR ''#'' # drop 1 s4 else []) = s3"
    unfolding hq_def by (rule tail_query_fragment) (simp add: s4_def hq_def)
  have "url_String (url_split s) =
      (if hs then a @ '':'' else [])
      @ (if ha then ''//'' @ takeWhile (\<lambda>ch. \<not> delimiter ''/?#'' ch) (drop 2 s1) else [])
      @ takeWhile (\<lambda>ch. \<not> delimiter ''?#'' ch) s2
      @ ((if hq then CHR ''?'' # takeWhile (\<lambda>ch. \<not> delimiter ''#'' ch) (drop 1 s3) else [])
         @ (if HasPrefix s4 ''#'' then CHR ''#'' # drop 1 s4 else []))"
    unfolding split by (simp add: url_String_def)
  also have "\<dots> = (if hs then a @ '':'' else [])
      @ (if ha then ''//'' @ takeWhile (\<lambda>ch. \<not> delimiter ''/?#'' ch) (drop 2 s1) else [])
      @ takeWhile (\<lambda>ch. \<not> delimiter ''?#'' ch) s2 @ s3"
    by (simp only: p4)
  also have "\<dots> = (if hs then a @ '':'' else [])
      @ (if ha then ''//'' @ takeWhile (\<lambda>ch. \<not> delimiter ''/?#'' ch) (drop 2 s1) else [])
      @ s2"
    by (simp only: p3)
  also have "\<dots> = (if hs then a @ '':'' else []) @ s1"
    using p2 by (simp only: append_assoc[symmetric])
  also have "\<dots> = s" by (rule p1)
  finally show ?thesis .
qed

section \<open>The response transformer\<close>

text \<open>
  What the method-bound transformer returns for a response that carries its request
  and the request's URL, path by path.
\<close>

lemma Client_transform_returns:
  assumes "Request r = Some rq" and "URL rq = Some u"
  shows "Client_transformTheHTTPResponse c Unmarshal (Some r) destination =
     (let env = \<lparr>models_ResponseScheme.Code = StatusCode r, Endpoint = url_String u,
                 Method = Request.Method rq, Bytes = [], Headers = None\<rparr>
      in if \<not> (200 \<le> StatusCode r \<and> StatusCode r < 300)
         then Return (Some env, Some (requestFailedError (StatusCode r)), destination)
         else (case Body r of
                 None \<Rightarrow> Panic nilDereference
               | Some body \<Rightarrow>
                  (case failure body of
                     Some err \<Rightarrow> Return (Some env, Some err, destination)
                   | None \<Rightarrow>
                      (case destination of
                         None \<Rightarrow>
                           Return (Some (env\<lparr>models_ResponseScheme.Bytes := content body\<rparr>),
                             None, None)
                       | Some dst \<Rightarrow>
                          (case Unmarshal (content body) dst of
                             (Some err, dst') \<Rightarrow> Return (Some env, Some err, Some dst')
                           | (None, dst') \<Rightarrow>
                               Return (Some (env\<lparr>models_ResponseScheme.Bytes := content body\<rparr>),
                                 None, Some dst'))))))"
  using assms
  by (simp add: Client_transformTheHTTPResponse_def models_ResponseScheme_zero_def ReadAll_def
      Buffer_Write_def Let_def split: option.split prod.split)

text \<open>The transformer panics exactly when it dereferences a nil.\<close>

lemma Client_transform_panics_iff:
  "(\<exists>p. Client_transformTheHTTPResponse c Unmarshal (Some r) destination = Panic p) \<longleftrightarrow>
     (Request r = None
      \<or> (\<exists>rq. Request r = Some rq \<and> URL rq = None)
      \<or> (200 \<le> StatusCode r \<and> StatusCode r < 300 \<and> Body r = None))"
  by (auto simp: Client_transformTheHTTPResponse_def ReadAll_def Let_def
      split: option.splits prod.splits)

lemma requestFailedError_404:
  "requestFailedError 404 = errorString
     ''request failed. Please analyze the request body for more details. Status Code: 404''"
  by code_simp

text \<open>
  Claim C1, as amended. A status code in [200,300) alone does not give \<open>error == nil\<close>:
  the body may fail to read and the JSON may fail to decode. For every response that
  carries its request, the request's URL and a body, whose status code is in [200,300),
  whose body is read to its end without an error and, when a destination is supplied,
  decodes into it without an error, the transformer returns the envelope with a nil
  error and with raw bytes equal to the exact response body.
\<close>

theorem transform_success:
  assumes "Request r = Some rq" and "URL rq = Some u" and "Body r = Some body"
    and "200 \<le> StatusCode r" and "StatusCode r < 300"
    and "failure body = None"
    and "case destination of None \<Rightarrow> True
         | Some dst \<Rightarrow> fst (Unmarshal (content body) dst) = None"
  shows "Client_transformTheHTTPResponse c Unmarshal (Some r) destination =
     Return (Some \<lparr>models_ResponseScheme.Code = StatusCode r, Endpoint = url_String u,
                   Method = Request.Method rq, Bytes = content body, Headers = None\<rparr>,
             None,
             map_option (\<lambda>dst. snd (Unmarshal (content body) dst)) destination)"
  using assms
  by (cases destination) (auto simp: Client_transform_returns Let_def split: prod.splits)

text \<open>
  The theorem at status 200 with the body \<open>[1,2]\<close> and a decoder that accepts it.
\<close>

theorem transform_success_witness:
  "Client_transformTheHTTPResponse (None :: (unit, unit) Client option)
     (\<lambda>data dst. (None, Value Pointer (Some data)))
     (Some \<lparr>StatusCode = 200,
     Request = Some \<lparr>Request.Method = ''GET'',
       URL = Some (url_split ''https://example.atlassian.net/rest/agile/1.0/board/1'')\<rparr>,
     Body = Some (Reader ''[1,2]'' None)\<rparr>)
     (Some (Value Pointer (Some [])))
   = Return (Some \<lparr>models_ResponseScheme.Code = 200,
        Endpoint = ''https://example.atlassian.net/rest/agile/1.0/board/1'',
        Method = ''GET'', Bytes = ''[1,2]'', Headers = None\<rparr>,
       None, Some (Value Pointer (Some ''[1,2]'')))"
  using transform_success [of "\<lparr>StatusCode = 200,
     Request = Some \<lparr>Request.Method = ''GET'',
       URL = Some (url_split ''https://example.atlassian.net/rest/agile/1.0/board/1'')\<rparr>,
     Body = Some (Reader ''[1,2]'' None)\<rparr>"
     "\<lparr>Request.Method = ''GET'',
       URL = Some (url_split ''https://example.atlassian.net/rest/agile/1.0/board/1'')\<rparr>"
     "url_split ''https://example.atlassian.net/rest/agile/1.0/board/1''"
     "Reader ''[1,2]'' None" "\<lambda>data dst. (None, Value Pointer (Some data))"
     "Some (Value Pointer (Some []))" "(None :: (unit, unit) Client option)"]
  by (simp add: url_String_split)

text \<open>
  Claim C1 as stated fails: status 200, and the body breaks off after three bytes with
  a read error. The transformer returns that error, and the envelope has no raw bytes.
\<close>

theorem transform_success_counterexample:
  "Client_transformTheHTTPResponse (None :: (unit, unit) Client option)
     (\<lambda>data dst. (None, dst))
     (Some \<lparr>StatusCode = 200,
     Request = Some \<lparr>Request.Method = ''GET'',
       URL = Some (url_split ''https://example.atlassian.net/rest/agile/1.0/board/1'')\<rparr>,
     Body = Some (Reader ''[1,'' (Some (libraryError ''unexpected EOF'')))\<rparr>)
     (None :: unit interface)
   = Return (Some \<lparr>models_ResponseScheme.Code = 200,
        Endpoint = ''https://example.atlassian.net/rest/agile/1.0/board/1'',
        Method = ''GET'', Bytes = [], Headers = None\<rparr>,
       Some (libraryError ''unexpected EOF''), None)"
  by (simp add: Client_transform_returns url_String_split)

text \<open>
  Claim C2, as amended. For every response that carries its request and the request's
  URL and whose status code is outside [200,300), the transformer returns a non-nil
  envelope with code, endpoint and method populated, together with the error built
  from \<open>requestFailedError\<close> and exactly that status code (no other code gives the same
  error); the body is not read, the raw bytes stay empty, and the destination is not
  touched.
\<close>

theorem transform_failure:
  assumes "Request r = Some rq" and "URL rq = Some u"
    and "\<not> (200 \<le> StatusCode r \<and> StatusCode r < 300)"
  shows "Client_transformTheHTTPResponse c Unmarshal (Some r) destination =
       Return (Some \<lparr>models_ResponseScheme.Code = StatusCode r, Endpoint = url_String u,
                     Method = Request.Method rq, Bytes = [], Headers = None\<rparr>,
               Some (requestFailedError (StatusCode r)), destination)
     \<and> (\<forall>d. requestFailedError d = requestFailedError (StatusCode r) \<longrightarrow> d = StatusCode r)"
  using assms by (auto simp: Client_transform_returns dest: requestFailedError_inj)

text \<open>The theorem at status 404: the error message ends in the digits 404.\<close>

theorem transform_failure_witness:
  "Client_transformTheHTTPResponse (None :: (unit, unit) Client option)
     (\<lambda>data dst. (None, dst))
     (Some \<lparr>StatusCode = 404,
     Request = Some \<lparr>Request.Method = ''GET'',
       URL = Some (url_split ''https://example.atlassian.net/rest/agile/1.0/board/1'')\<rparr>,
     Body = Some (Reader ''Board does not exist'' None)\<rparr>)
     (None :: unit interface)
   = Return (Some \<lparr>models_ResponseScheme.Code = 404,
        Endpoint = ''https://example.atlassian.net/rest/agile/1.0/board/1'',
        Method = ''GET'', Bytes = [], Headers = None\<rparr>,
       Some (errorString
         ''request failed. Please analyze the request body for more details. Status Code: 404''),
       None)"
  using transform_failure [of "\<lparr>StatusCode = 404,
     Request = Some \<lparr>Request.Method = ''GET'',
       URL = Some (url_split ''https://example.atlassian.net/rest/agile/1.0/board/1'')\<rparr>,
     Body = Some (Reader ''Board does not exist'' None)\<rparr>"
     "\<lparr>Request.Method = ''GET'',
       URL = Some (url_split ''https://example.atlassian.net/rest/agile/1.0/board/1'')\<rparr>"
     "url_split ''https://example.atlassian.net/rest/agile/1.0/board/1''"
     "(None :: (unit, unit) Client option)" "\<lambda>data dst. (None, dst)"
     "None :: unit interface", THEN conjunct1]
    requestFailedError_404
  by (simp add: url_String_split)

text \<open>
  Claim C2 as stated fails: a response with status 404 whose \<open>Request\<close> is nil (a
  transport that fills in the status and the body only). Line 111 dereferences the nil
  and the call panics; nothing is returned.
\<close>

theorem transform_failure_counterexample:
  "Client_transformTheHTTPResponse (None :: (unit, unit) Client option)
     (\<lambda>data dst. (None, dst))
     (Some \<lparr>StatusCode = 404, Request = None,
            Body = Some (Reader ''Board does not exist'' None)\<rparr>)
     (None :: unit interface)
   = Panic nilDereference"
  by (simp add: Client_transformTheHTTPResponse_def)

text \<open>
  Claim C3, as amended. On the success path (status in [200,300), body read to its end)
  the raw body bytes are copied into the returned envelope when no destination is
  supplied and when decoding succeeds. When a destination is supplied and decoding
  fails, the transformer returns before it writes the bytes: the envelope returned
  alongside the decode error has code, endpoint and method, and empty raw bytes.
\<close>

theorem transform_bytes:
  assumes "Request r = Some rq" and "URL rq = Some u" and "Body r = Some body"
    and "200 \<le> StatusCode r" and "StatusCode r < 300"
    and "failure body = None"
  shows "Client_transformTheHTTPResponse c Unmarshal (Some r) destination =
     (let envelope = (\<lambda>raw. \<lparr>models_ResponseScheme.Code = StatusCode r,
                        Endpoint = url_String u, Method = Request.Method rq,
                        Bytes = raw, Headers = None\<rparr>)
      in case destination of
           None \<Rightarrow> Return (Some (envelope (content body)), None, None)
         | Some dst \<Rightarrow>
            (case Unmarshal (content body) dst of
               (None, dst') \<Rightarrow> Return (Some (envelope (content body)), None, Some dst')
             | (Some err, dst') \<Rightarrow> Return (Some (envelope []), Some err, Some dst')))"
  using assms
  by (auto simp: Client_transform_returns Let_def split: option.splits prod.splits)

text \<open>
  The theorem at status 200 with the body \<open>[1,2]\<close> and a decoder that accepts exactly
  that body.
\<close>

theorem transform_bytes_witness:
  "Client_transformTheHTTPResponse (None :: (unit, unit) Client option)
     (\<lambda>data dst. if data = ''[1,2]'' then (None, Value Pointer (Some [1, 2]))
                  else (Some (libraryError ''unexpected end of JSON input''), dst))
     (Some \<lparr>StatusCode = 200,
     Request = Some \<lparr>Request.Method = ''GET'',
       URL = Some (url_split ''https://example.atlassian.net/rest/agile/1.0/board/1'')\<rparr>,
     Body = Some (Reader ''[1,2]'' None)\<rparr>)
     (Some (Value Pointer (Some ([] :: nat list))))
   = Return (Some \<lparr>models_ResponseScheme.Code = 200,
        Endpoint = ''https://example.atlassian.net/rest/agile/1.0/board/1'',
        Method = ''GET'', Bytes = ''[1,2]'', Headers = None\<rparr>,
       None, Some (Value Pointer (Some [1, 2])))"
  using transform_bytes [of "\<lparr>StatusCode = 200,
     Request = Some \<lparr>Request.Method = ''GET'',
       URL = Some (url_split ''https://example.atlassian.net/rest/agile/1.0/board/1'')\<rparr>,
     Body = Some (Reader ''[1,2]'' None)\<rparr>"
     "\<lparr>Request.Method = ''GET'',
       URL = Some (url_split ''https://example.atlassian.net/rest/agile/1.0/board/1'')\<rparr>"
     "url_split ''https://example.atlassian.net/rest/agile/1.0/board/1''"
     "Reader ''[1,2]'' None" "(None :: (unit, unit) Client option)"
     "\<lambda>data dst. if data = ''[1,2]'' then (None, Value Pointer (Some [1, 2]))
                  else (Some (libraryError ''unexpected end of JSON input''), dst)"
     "Some (Value Pointer (Some ([] :: nat list)))"]
  by (simp add: url_String_split)

text \<open>
  Claim C3 as stated fails: status 200, the body \<open>[1,\<close> is read to its end, a destination
  is supplied and the decoder reports the truncated input. The envelope that comes
  back with the decode error holds no raw bytes.
\<close>

theorem transform_bytes_counterexample:
  "Client_transformTheHTTPResponse (None :: (unit, unit) Client option)
     (\<lambda>data dst. (Some (libraryError ''unexpected end of JSON input''), dst))
     (Some \<lparr>StatusCode = 200,
     Request = Some \<lparr>Request.Method = ''GET'',
       URL = Some (url_split ''https://example.atlassian.net/rest/agile/1.0/board/1'')\<rparr>,
     Body = Some (Reader ''[1,'' None)\<rparr>)
     (Some (Value Pointer (Some ())))
   = Return (Some \<lparr>models_ResponseScheme.Code = 200,
        Endpoint = ''https://example.atlassian.net/rest/agile/1.0/board/1'',
        Method = ''GET'', Bytes = [], Headers = None\<rparr>,
       Some (libraryError ''unexpected end of JSON input''),
       Some (Value Pointer (Some ())))"
  by (simp add: Client_transform_returns url_String_split)

text \<open>
  Claim C4, as amended. For every non-nil response that carries its request and the
  request's URL, and a body whenever its status code is in [200,300), the transformer
  returns an envelope whose status code, endpoint and method are those of the response
  and its request, whatever the outcome: HTTP-level failure, body-read failure, decode
  failure or success.
\<close>

theorem transform_envelope:
  assumes "Request r = Some rq" and "URL rq = Some u"
    and "Body r \<noteq> None \<or> \<not> (200 \<le> StatusCode r \<and> StatusCode r < 300)"
  shows "\<exists>envelope err destination'.
       Client_transformTheHTTPResponse c Unmarshal (Some r) destination =
         Return (Some envelope, err, destination')
     \<and> models_ResponseScheme.Code envelope = StatusCode r
     \<and> models_ResponseScheme.Endpoint envelope = url_String u
     \<and> models_ResponseScheme.Method envelope = Request.Method rq"
  using assms
  by (auto simp: Client_transform_returns Let_def split: option.splits prod.splits)

text \<open>The theorem on a decode failure: status 200, the body \<open>[1,\<close>, a destination.\<close>

theorem transform_envelope_witness:
  "\<exists>envelope err destination'.
     Client_transformTheHTTPResponse (None :: (unit, unit) Client option)
       (\<lambda>data dst. (Some (libraryError ''unexpected end of JSON input''), dst))
       (Some \<lparr>StatusCode = 200,
     Request = Some \<lparr>Request.Method = ''GET'',
       URL = Some (url_split ''https://example.atlassian.net/rest/agile/1.0/board/1'')\<rparr>,
     Body = Some (Reader ''[1,'' None)\<rparr>)
       (Some (Value Pointer (Some ())))
       = Return (Some envelope, err, destination')
     \<and> models_ResponseScheme.Code envelope = 200
     \<and> models_ResponseScheme.Endpoint envelope
         = ''https://example.atlassian.net/rest/agile/1.0/board/1''
     \<and> models_ResponseScheme.Method envelope = ''GET''"
  using transform_envelope [of "\<lparr>StatusCode = 200,
     Request = Some \<lparr>Request.Method = ''GET'',
       URL = Some (url_split ''https://example.atlassian.net/rest/agile/1.0/board/1'')\<rparr>,
     Body = Some (Reader ''[1,'' None)\<rparr>"
     "\<lparr>Request.Method = ''GET'',
       URL = Some (url_split ''https://example.atlassian.net/rest/agile/1.0/board/1'')\<rparr>"
     "url_split ''https://example.atlassian.net/rest/agile/1.0/board/1''"
     "(None :: (unit, unit) Client option)"
     "\<lambda>data dst. (Some (libraryError ''unexpected end of JSON input''), dst)"
     "Some (Value Pointer (Some ()))"]
  by (simp add: url_String_split)

text \<open>
  Claim C4 as stated fails: a non-nil response with status 200 and a body, whose
  \<open>Request\<close> is nil. The call panics at line 111 and returns no envelope.
\<close>

theorem transform_envelope_counterexample:
  "Client_transformTheHTTPResponse (None :: (unit, unit) Client option)
     (\<lambda>data dst. (None, dst))
     (Some \<lparr>StatusCode = 200, Request = None,
            Body = Some (Reader ''[1,2]'' None)\<rparr>)
     (None :: unit interface)
   = Panic nilDereference"
  by (simp add: Client_transformTheHTTPResponse_def)

text \<open>
  Claim C6. When the response reference is nil the transformer returns no envelope
  (the result is nil) and the error \<open>validation failed, please provide a
  http.Response pointer\<close>; the destination is not touched.
\<close>

theorem transform_nil_response:
  "Client_transformTheHTTPResponse c Unmarshal None destination =
     Return (None,
       Some (errorString ''validation failed, please provide a http.Response pointer''),
       destination)"
  by (simp add: Client_transformTheHTTPResponse_def)

section \<open>The payload serializer\<close>

text \<open>
  Claim C5. For a nil interface and for an interface that holds a nil pointer, both
  serializers return no reader and the error \<open>structureNotParsedError\<close>; \<open>json.Marshal\<close>
  is not consulted, so no empty payload is produced.
\<close>

theorem serializer_absent_payload:
  assumes "payload = None \<or> payload = Some (Value Pointer None)"
  shows "Client_transformStructToReader c Marshal payload
           = Return (None, Some structureNotParsedError)
       \<and> transformStructToReader Marshal payload
           = Return (None, Some structureNotParsedError)"
  using assms
  by (auto simp: Client_transformStructToReader_def transformStructToReader_def IsNil_def)

text \<open>
  The theorem on a nil pointer, with a \<open>Marshal\<close> that would have produced \<open>null\<close>.
\<close>

theorem serializer_absent_payload_witness:
  "Client_transformStructToReader (None :: (unit, unit) Client option)
       (\<lambda>v. Inr ''null'') (Some (Value Pointer (None :: unit option)))
     = Return (None, Some (errorString
         ''failed to parse the interface pointer, please provide a valid one''))
   \<and> transformStructToReader (\<lambda>v. Inr ''null'') (Some (Value Pointer (None :: unit option)))
     = Return (None, Some (errorString
         ''failed to parse the interface pointer, please provide a valid one''))"
  using serializer_absent_payload [of "Some (Value Pointer (None :: unit option))"
      "(None :: (unit, unit) Client option)" "\<lambda>v. Inr ''null''"]
  by (simp add: structureNotParsedError_def)

text \<open>
  A payload whose kind has no nil (a struct passed by value, a number, a string)
  reaches \<open>IsNil\<close> and panics; a nil map, slice, channel or function is refused like
  a nil pointer.
\<close>

lemma serializer_panics_on_plain_value:
  "kind v \<notin> {Chan, Func, Map, Pointer, UnsafePointer, Interface, Slice} \<Longrightarrow>
   transformStructToReader Marshal (Some v) = Panic (ValueError ''reflect.Value.IsNil'' (kind v))"
  by (simp add: transformStructToReader_def IsNil_def)

lemma serializer_marshals:
  "kind v \<in> {Chan, Func, Map, Pointer, UnsafePointer, Interface, Slice} \<Longrightarrow> target v = Some x \<Longrightarrow>
   transformStructToReader Marshal (Some v) =
     (case Marshal v of
        Inl err \<Rightarrow> Return (None, Some err)
      | Inr b \<Rightarrow> Return (Some (Reader b None), None))"
  by (simp add: transformStructToReader_def IsNil_def bytes_NewReader_def split: sum.split)

section \<open>The duplicated functions\<close>

text \<open>
  Claim C9. The top-level and the method-bound transformer agree on every input: both
  panic, or both return, with envelopes equal in code, endpoint, method and raw bytes
  (or both nil), with the same error and the same destination. The two serializers
  return the same result on every input.
\<close>

theorem duplicates_agree:
  "map_outcome
      (map_prod (map_option (\<lambda>e. (ResponseScheme.Code e, ResponseScheme.Endpoint e,
         ResponseScheme.Method e, ResponseScheme.Bytes e))) id)
      (transformTheHTTPResponse Unmarshal response destination)
   = map_outcome
      (map_prod (map_option (\<lambda>e. (models_ResponseScheme.Code e, models_ResponseScheme.Endpoint e,
         models_ResponseScheme.Method e, models_ResponseScheme.Bytes e))) id)
      (Client_transformTheHTTPResponse c Unmarshal response destination)
   \<and> transformStructToReader Marshal payload = Client_transformStructToReader c Marshal payload"
  by (simp add: transformTheHTTPResponse_def Client_transformTheHTTPResponse_def
      transformStructToReader_def Client_transformStructToReader_def
      ResponseScheme_zero_def models_ResponseScheme_zero_def Let_def
      split: option.split prod.split)

section \<open>The request builder and the constructor\<close>


text \<open>
  The resolution on the reference examples of RFC 3986, section 5.4 (normal and
  abnormal, the latter in their non-strict reading), against the base
  \<open>http://a/b/c/d;p?q\<close>.
\<close>

lemma rfc3986_normal_examples_1:
  "map (\<lambda>ref. url_String (ResolveReference (url_split ''http://a/b/c/d;p?q'') (url_split ref)))
     [''g:h'', ''g'', ''./g'', ''g/'', ''/g'', ''//g'']
   = [''g:h'', ''http://a/b/c/g'', ''http://a/b/c/g'', ''http://a/b/c/g/'', ''http://a/g'',
      ''http://g'']"
  by code_simp

lemma rfc3986_normal_examples_2:
  "map (\<lambda>ref. url_String (ResolveReference (url_split ''http://a/b/c/d;p?q'') (url_split ref)))
     [''?y'', ''g?y'', ''#s'', ''g#s'', ''g?y#s'', '';x'']
   = [''http://a/b/c/d;p?y'', ''http://a/b/c/g?y'', ''http://a/b/c/d;p?q#s'',
      ''http://a/b/c/g#s'', ''http://a/b/c/g?y#s'', ''http://a/b/c/;x'']"
  by code_simp

lemma rfc3986_normal_examples_3:
  "map (\<lambda>ref. url_String (ResolveReference (url_split ''http://a/b/c/d;p?q'') (url_split ref)))
     [''g;x'', ''g;x?y#s'', '''', ''.'', ''./'', ''..'']
   = [''http://a/b/c/g;x'', ''http://a/b/c/g;x?y#s'', ''http://a/b/c/d;p?q'',
      ''http://a/b/c/'', ''http://a/b/c/'', ''http://a/b/'']"
  by code_simp

lemma rfc3986_normal_examples_4:
  "map (\<lambda>ref. url_String (ResolveReference (url_split ''http://a/b/c/d;p?q'') (url_split ref)))
     [''../'', ''../g'', ''../..'', ''../../'', ''../../g'']
   = [''http://a/b/'', ''http://a/b/g'', ''http://a/'', ''http://a/'', ''http://a/g'']"
  by code_simp

lemma rfc3986_abnormal_examples_1:
  "map (\<lambda>ref. url_String (ResolveReference (url_split ''http://a/b/c/d;p?q'') (url_split ref)))
     [''../../../g'', ''../../../../g'', ''/./g'', ''/../g'', ''g.'']
   = [''http://a/g'', ''http://a/g'', ''http://a/g'', ''http://a/g'', ''http://a/b/c/g.'']"
  by code_simp

lemma rfc3986_abnormal_examples_2:
  "map (\<lambda>ref. url_String (ResolveReference (url_split ''http://a/b/c/d;p?q'') (url_split ref)))
     [''.g'', ''g..'', ''..g'', ''./../g'', ''./g/.'']
   = [''http://a/b/c/.g'', ''http://a/b/c/g..'', ''http://a/b/c/..g'', ''http://a/b/g'',
      ''http://a/b/c/g/'']"
  by code_simp

lemma rfc3986_abnormal_examples_3:
  "map (\<lambda>ref. url_String (ResolveReference (url_split ''http://a/b/c/d;p?q'') (url_split ref)))
     [''g/./h'', ''g/../h'', ''g;x=1/./y'', ''g;x=1/../y'', ''g?y/./x'']
   = [''http://a/b/c/g/h'', ''http://a/b/c/h'', ''http://a/b/c/g;x=1/y'',
      ''http://a/b/c/y'', ''http://a/b/c/g?y/./x'']"
  by code_simp

lemma rfc3986_abnormal_examples_4:
  "map (\<lambda>ref. url_String (ResolveReference (url_split ''http://a/b/c/d;p?q'') (url_split ref)))
     [''g?y/../x'', ''g#s/./x'', ''g#s/../x'', ''http:g'']
   = [''http://a/b/c/g?y/../x'', ''http://a/b/c/g#s/./x'', ''http://a/b/c/g#s/../x'',
      ''http:g'']"
  by code_simp





text \<open>
  The slash is appended to the string, whatever the string is: when the site string
  carries a query, the slash ends the query and the path is left as it was.
\<close>

lemma New_site_with_query:
  "map_option Site (fst (New (\<lambda>s. None) (\<lambda>cl v. Inr ()) (\<lambda>cl v. Inr ()) None
     ''https://example.atlassian.net/rest?x=1''))
   = Some (Some \<lparr>Scheme = Some ''https'', Authority = Some ''example.atlassian.net'',
        Path = ''/rest'', RawQuery = Some ''x=1/'', Fragment = None\<rparr>)"
proof -
  have parsed: "url_split ''https://example.atlassian.net/rest?x=1/''
      = \<lparr>Scheme = Some ''https'', Authority = Some ''example.atlassian.net'',
         Path = ''/rest'', RawQuery = Some ''x=1/'', Fragment = None\<rparr>"
    by code_simp
  have "\<not> HasSuffix ''https://example.atlassian.net/rest?x=1'' ''/''"
    by code_simp
  then show ?thesis
    by (simp add: New_def url_Parse_def parsed)
qed

section \<open>The JSON codec\<close>

text \<open>
  The package adds nothing to the codec. The serializer hands out exactly the bytes
  \<open>json.Marshal\<close> produced, and the transformer hands exactly the bytes of the body
  to \<open>json.Unmarshal\<close>: a payload sent and echoed back with a status in [200,300) is
  decoded by \<open>Unmarshal\<close> from what \<open>Marshal\<close> wrote.
\<close>

lemma serializer_then_transformer:
  assumes "kind v \<in> {Chan, Func, Map, Pointer, UnsafePointer, Interface, Slice}"
    and "target v = Some x" and "Marshal v = Inr b"
    and "Request r = Some rq" and "URL rq = Some u"
    and "200 \<le> StatusCode r" and "StatusCode r < 300"
  shows "\<exists>reader. transformStructToReader Marshal (Some v) = Return (Some reader, None)
     \<and> ReadAll reader = (b, None)
     \<and> (\<exists>envelope.
          Client_transformTheHTTPResponse c Unmarshal (Some (r\<lparr>Body := Some reader\<rparr>)) (Some dst)
          = Return (Some envelope, fst (Unmarshal b dst), Some (snd (Unmarshal b dst))))"
proof -
  have 1: "transformStructToReader Marshal (Some v) = Return (Some (Reader b None), None)"
    using assms(1-3) by (simp add: serializer_marshals)
  have 2: "ReadAll (Reader b None) = (b, None)"
    by (simp add: ReadAll_def)
  have 3: "\<exists>envelope.
      Client_transformTheHTTPResponse c Unmarshal (Some (r\<lparr>Body := Some (Reader b None)\<rparr>)) (Some dst)
      = Return (Some envelope, fst (Unmarshal b dst), Some (snd (Unmarshal b dst)))"
    using assms(4-7)
    by (cases "Unmarshal b dst")
       (auto simp: Client_transform_returns [where rq = rq and u = u] Let_def split: option.splits)
  from 1 2 3 show ?thesis by blast
qed

end
